theory Spec2Isabelle
  imports Main
begin

section \<open>The sourceCpp build session (SessionSourceCpp.cpp)\<close>

text \<open>
  A shallow embedding of \<^verbatim>\<open>session::modules::build::source_cpp\<close>: the
  \<^verbatim>\<open>SourceCppContext\<close> singleton, the \<^verbatim>\<open>SourceCppState\<close> payload
  and the two client events.  The member functions mutate the context object and the
  process (the PATH variable, the console signal, the client event queue, the console
  error stream, the delayed work queue); here every function takes the context and the
  process state and returns them updated.
\<close>

subsection \<open>Data\<close>

text \<open>A \<^verbatim>\<open>core::FilePath\<close> is represented by its path string; \<^verbatim>\<open>FilePath()\<close> is the empty path.\<close>

type_synonym FilePath = string

text \<open>\<^verbatim>\<open>module_context::ConsoleOutputType\<close>.\<close>

datatype ConsoleOutputType = ConsoleOutputNormal | ConsoleOutputError

text \<open>
  The first argument of \<^verbatim>\<open>BuildOutput(type, output)\<close>: the constants
  \<^verbatim>\<open>kBuildOutputNormal\<close> and \<^verbatim>\<open>kBuildOutputError\<close> of SessionBuildUtils.hpp.
\<close>

datatype BuildOutputType = kBuildOutputNormal | kBuildOutputError

record BuildOutput =
  outputType :: BuildOutputType
  outputText :: string

record CompileError =
  errorFile :: FilePath
  errorLine :: nat
  errorColumn :: nat
  errorSeverity :: string
  errorMessage :: string

text \<open>\<^verbatim>\<open>struct SourceCppState\<close>; the two \<^verbatim>\<open>json::Array\<close> fields are lists.\<close>

record SourceCppState =
  targetFile :: string
  errors :: "CompileError list"
  outputs :: "BuildOutput list"

definition emptySourceCppState :: SourceCppState where
  "emptySourceCppState = \<lparr>targetFile = [], errors = [], outputs = []\<rparr>"

definition addOutput :: "BuildOutputType \<Rightarrow> string \<Rightarrow> SourceCppState \<Rightarrow> SourceCppState" where
  "addOutput type output s =
     s\<lparr>outputs := outputs s @ [\<lparr>outputType = type, outputText = output\<rparr>]\<rparr>"

datatype ClientEvent = kSourceCppStarted | kSourceCppCompleted SourceCppState

text \<open>The private fields of \<^verbatim>\<open>class SourceCppContext\<close> (named without the trailing underscore).\<close>

record SourceCppContext =
  sourceFile :: FilePath
  showOutput :: bool
  fromCode :: bool
  consoleOutputBuffer :: string
  consoleErrorBuffer :: string
  previousPath :: string
  rToolsWarning :: string

text \<open>
  The process around the context: the value of the PATH variable
  (\<^verbatim>\<open>core::system::getenv("PATH")\<close>, empty when unset) with the values written to it by
  \<^verbatim>\<open>core::system::setenv\<close> in order, whether \<^verbatim>\<open>onConsoleOutput\<close> is connected
  to \<^verbatim>\<open>events().onConsoleOutput\<close>, the client event queue, the texts written with
  \<^verbatim>\<open>consoleWriteError\<close>, and the pending delayed work.
\<close>

record Process =
  envPATH :: string
  pathWrites :: "string list"
  connected :: bool
  clientEvents :: "ClientEvent list"
  consoleErrorStream :: "string list"
  delayedWork :: "(bool \<times> string) list"

text \<open>
  What the translation unit uses and does not define.
  \<^item> \<open>addRtoolsToPathIfNecessary path warning\<close> stands for
    \<^verbatim>\<open>build::addRtoolsToPathIfNecessary(&path, &warning)\<close>: the returned flag and
    the contents of the two strings after the call.
  \<^item> \<open>gccErrorParser base\<close> is the \<^verbatim>\<open>CompileErrorParser\<close> for a base directory.
  \<^item> \<open>createAliasedPath\<close> and \<open>parent\<close> are the path operations used for the payload.
  \<^item> \<open>win32\<close> says whether \<^verbatim>\<open>_WIN32\<close> is defined.
  \<^item> \<open>writeErrorFiresEvent\<close> says whether \<^verbatim>\<open>module_context::consoleWriteError\<close>
    also fires \<^verbatim>\<open>events().onConsoleOutput\<close> for the text it writes (the comment in
    \<^verbatim>\<open>handleBuildComplete\<close> expects the warning to reach \<^verbatim>\<open>consoleErrorBuffer_\<close>).
\<close>

record Externals =
  addRtoolsToPathIfNecessary :: "string \<Rightarrow> string \<Rightarrow> bool \<times> string \<times> string"
  gccErrorParser :: "FilePath \<Rightarrow> string \<Rightarrow> CompileError list"
  createAliasedPath :: "FilePath \<Rightarrow> string"
  parent :: "FilePath \<Rightarrow> FilePath"
  win32 :: bool
  writeErrorFiresEvent :: bool

subsection \<open>Console capture\<close>

text \<open>\<^verbatim>\<open>boost::algorithm::ends_with\<close>.\<close>

definition ends_with :: "string \<Rightarrow> string \<Rightarrow> bool" where
  "ends_with input test \<longleftrightarrow>
     length test \<le> length input \<and> drop (length input - length test) input = test"

definition newline :: string where
  "newline = [CHR 0x0A]"

text \<open>The \<^verbatim>\<open>#ifdef _WIN32\<close> block of \<^verbatim>\<open>onConsoleOutput\<close>.\<close>

definition terminateLine :: "Externals \<Rightarrow> string \<Rightarrow> string" where
  "terminateLine ex output =
     (if win32 ex \<and> \<not> ends_with output newline then output @ newline else output)"

definition onConsoleOutput ::
  "Externals \<Rightarrow> ConsoleOutputType \<Rightarrow> string \<Rightarrow> SourceCppContext \<Rightarrow> SourceCppContext" where
  "onConsoleOutput ex type output ctx =
     (let output' = terminateLine ex output in
      if type = ConsoleOutputNormal
      then ctx\<lparr>consoleOutputBuffer := consoleOutputBuffer ctx @ output'\<rparr>
      else ctx\<lparr>consoleErrorBuffer := consoleErrorBuffer ctx @ output'\<rparr>)"

subsection \<open>Notifier\<close>

definition enqueClientEvent :: "ClientEvent \<Rightarrow> Process \<Rightarrow> Process" where
  "enqueClientEvent event p = p\<lparr>clientEvents := clientEvents p @ [event]\<rparr>"

definition enqueSourceCppStarted :: "Process \<Rightarrow> Process" where
  "enqueSourceCppStarted p = enqueClientEvent kSourceCppStarted p"

text \<open>The \<^verbatim>\<open>SourceCppState\<close> that \<^verbatim>\<open>enqueSourceCppCompleted\<close> builds before it enqueues it.\<close>

definition completedState :: "Externals \<Rightarrow> FilePath \<Rightarrow> string \<Rightarrow> string \<Rightarrow> SourceCppState" where
  "completedState ex file output errorOutput =
     (let s0 = emptySourceCppState\<lparr>targetFile := createAliasedPath ex file\<rparr>;
          s1 = addOutput kBuildOutputNormal output s0;
          s2 = addOutput kBuildOutputError errorOutput s1;
          allOutput = output @ newline @ errorOutput;
          errs = gccErrorParser ex (parent ex file) allOutput
      in s2\<lparr>errors := errs\<rparr>)"

definition enqueSourceCppCompleted ::
  "Externals \<Rightarrow> FilePath \<Rightarrow> string \<Rightarrow> string \<Rightarrow> Process \<Rightarrow> Process" where
  "enqueSourceCppCompleted ex file output errorOutput p =
     enqueClientEvent (kSourceCppCompleted (completedState ex file output errorOutput)) p"

subsection \<open>The process operations used by the context\<close>

definition setenvPATH :: "string \<Rightarrow> Process \<Rightarrow> Process" where
  "setenvPATH v p = p\<lparr>envPATH := v, pathWrites := pathWrites p @ [v]\<rparr>"

text \<open>
  Modelled from the spec: \<^verbatim>\<open>module_context::consoleWriteError\<close> is declared in
  SessionModuleContext.hpp and defined outside this translation unit.  It writes the text
  to the user-visible error stream; when \<open>writeErrorFiresEvent\<close> holds it also delivers
  the text, as an error chunk, to the connected console subscription.
\<close>

definition consoleWriteError ::
  "Externals \<Rightarrow> string \<Rightarrow> SourceCppContext \<Rightarrow> Process \<Rightarrow> SourceCppContext \<times> Process" where
  "consoleWriteError ex text ctx p =
     (let p' = p\<lparr>consoleErrorStream := consoleErrorStream p @ [text]\<rparr> in
      if writeErrorFiresEvent ex \<and> connected p'
      then (onConsoleOutput ex ConsoleOutputError text ctx, p')
      else (ctx, p'))"

text \<open>
  Modelled from the spec: \<^verbatim>\<open>module_context::scheduleDelayedWork\<close> is defined outside
  this translation unit.  It queues the bound callback, here the arguments of
  \<^verbatim>\<open>handleBuildComplete\<close>, to run once, later, on the same event loop.
\<close>

definition scheduleDelayedWork :: "bool \<times> string \<Rightarrow> Process \<Rightarrow> Process" where
  "scheduleDelayedWork work p = p\<lparr>delayedWork := delayedWork p @ [work]\<rparr>"

subsection \<open>The build session\<close>

definition reset :: "SourceCppContext \<Rightarrow> Process \<Rightarrow> SourceCppContext \<times> Process" where
  "reset ctx p =
     (ctx\<lparr>sourceFile := [], showOutput := False, fromCode := False,
          consoleOutputBuffer := [], consoleErrorBuffer := [],
          previousPath := [], rToolsWarning := []\<rparr>,
      p\<lparr>connected := False\<rparr>)"

definition onBuild ::
  "Externals \<Rightarrow> FilePath \<Rightarrow> bool \<Rightarrow> bool \<Rightarrow> SourceCppContext \<Rightarrow> Process
     \<Rightarrow> bool \<times> SourceCppContext \<times> Process" where
  "onBuild ex file fromCode' showOutput' ctx p =
     (let (ctx1, p1) = reset ctx p;
          ctx2 = ctx1\<lparr>sourceFile := file, fromCode := fromCode', showOutput := showOutput'\<rparr>;
          path = envPATH p1;
          (patched, newPath, warning) = addRtoolsToPathIfNecessary ex path (rToolsWarning ctx2);
          ctx3 = ctx2\<lparr>rToolsWarning := warning\<rparr>;
          (ctx4, p2) = (if patched then (ctx3\<lparr>previousPath := path\<rparr>, setenvPATH newPath p1)
                        else (ctx3, p1));
          p3 = p2\<lparr>connected := True\<rparr>;
          p4 = enqueSourceCppStarted p3
      in (True, ctx4, p4))"

text \<open>
  The three results of the call of \<^verbatim>\<open>addRtoolsToPathIfNecessary\<close> in
  \<^verbatim>\<open>onBuild\<close>, where \<^verbatim>\<open>rToolsWarning_\<close> has just been cleared by
  \<^verbatim>\<open>reset\<close>: whether PATH is patched, the new PATH, and the warning.
\<close>

definition patchApplies :: "Externals \<Rightarrow> string \<Rightarrow> bool" where
  "patchApplies ex path = fst (addRtoolsToPathIfNecessary ex path [])"

definition patchedPath :: "Externals \<Rightarrow> string \<Rightarrow> string" where
  "patchedPath ex path = fst (snd (addRtoolsToPathIfNecessary ex path []))"

definition patchWarning :: "Externals \<Rightarrow> string \<Rightarrow> string" where
  "patchWarning ex path = snd (snd (addRtoolsToPathIfNecessary ex path []))"

definition onBuildComplete :: "bool \<Rightarrow> string \<Rightarrow> Process \<Rightarrow> Process" where
  "onBuildComplete succeeded output p = scheduleDelayedWork (succeeded, output) p"

text \<open>The statements of \<^verbatim>\<open>handleBuildComplete\<close>, in order.\<close>

definition restorePreviousPath :: "SourceCppContext \<Rightarrow> Process \<Rightarrow> Process" where
  "restorePreviousPath ctx p =
     (if previousPath ctx \<noteq> [] then setenvPATH (previousPath ctx) p else p)"

definition collectBuildOutput :: "bool \<Rightarrow> string \<Rightarrow> SourceCppContext \<Rightarrow> string" where
  "collectBuildOutput succeeded output ctx =
     (if \<not> succeeded \<or> showOutput ctx then consoleOutputBuffer ctx else output)"

definition showRToolsWarning ::
  "Externals \<Rightarrow> bool \<Rightarrow> SourceCppContext \<Rightarrow> Process \<Rightarrow> SourceCppContext \<times> Process" where
  "showRToolsWarning ex succeeded ctx p =
     (if \<not> succeeded \<and> rToolsWarning ctx \<noteq> []
      then consoleWriteError ex (rToolsWarning ctx) ctx p
      else (ctx, p))"

definition handleBuildComplete ::
  "Externals \<Rightarrow> bool \<Rightarrow> string \<Rightarrow> SourceCppContext \<Rightarrow> Process \<Rightarrow> SourceCppContext \<times> Process" where
  "handleBuildComplete ex succeeded output ctx p =
     (let p1 = restorePreviousPath ctx p;
          buildOutput = collectBuildOutput succeeded output ctx;
          (ctx2, p2) = showRToolsWarning ex succeeded ctx p1;
          p3 = (if \<not> fromCode ctx2
                then enqueSourceCppCompleted ex (sourceFile ctx2) buildOutput
                       (consoleErrorBuffer ctx2) p2
                else p2)
      in reset ctx2 p3)"

subsection \<open>The event loop\<close>

text \<open>
  What reaches the session: the two R call methods, a console chunk (delivered to
  \<^verbatim>\<open>onConsoleOutput\<close> only while it is connected), and the event loop running the
  oldest pending delayed work.
\<close>

datatype Call =
    Build FilePath bool bool
  | ConsoleOutput ConsoleOutputType string
  | BuildComplete bool string
  | DelayedWork

fun step :: "Externals \<Rightarrow> Call \<Rightarrow> SourceCppContext \<times> Process \<Rightarrow> SourceCppContext \<times> Process" where
  "step ex (Build file fc so) (ctx, p) = snd (onBuild ex file fc so ctx p)"
| "step ex (ConsoleOutput type output) (ctx, p) =
     (if connected p then (onConsoleOutput ex type output ctx, p) else (ctx, p))"
| "step ex (BuildComplete succeeded output) (ctx, p) = (ctx, onBuildComplete succeeded output p)"
| "step ex DelayedWork (ctx, p) =
     (case delayedWork p of
        [] \<Rightarrow> (ctx, p)
      | (succeeded, output) # rest \<Rightarrow>
          handleBuildComplete ex succeeded output ctx (p\<lparr>delayedWork := rest\<rparr>))"

fun run :: "Externals \<Rightarrow> Call list \<Rightarrow> SourceCppContext \<times> Process \<Rightarrow> SourceCppContext \<times> Process" where
  "run ex [] st = st"
| "run ex (c # cs) st = run ex cs (step ex c st)"

text \<open>The static instance before any call, in a process whose PATH is \<open>path\<close>.\<close>

definition initialContext :: SourceCppContext where
  "initialContext =
     \<lparr>sourceFile = [], showOutput = False, fromCode = False,
      consoleOutputBuffer = [], consoleErrorBuffer = [],
      previousPath = [], rToolsWarning = []\<rparr>"

definition initialProcess :: "string \<Rightarrow> Process" where
  "initialProcess path =
     \<lparr>envPATH = path, pathWrites = [], connected = False, clientEvents = [],
      consoleErrorStream = [], delayedWork = []\<rparr>"

text \<open>The payloads of the completed events of a queue, in order.\<close>

fun completedPayloads :: "ClientEvent list \<Rightarrow> SourceCppState list" where
  "completedPayloads [] = []"
| "completedPayloads (kSourceCppStarted # es) = completedPayloads es"
| "completedPayloads (kSourceCppCompleted s # es) = s # completedPayloads es"

text \<open>The chunks of one channel, as stored, in delivery order.\<close>

definition captured :: "Externals \<Rightarrow> ConsoleOutputType \<Rightarrow> (ConsoleOutputType \<times> string) list \<Rightarrow> string" where
  "captured ex type chunks =
     concat (map (\<lambda>c. terminateLine ex (snd c)) (filter (\<lambda>c. fst c = type) chunks))"

definition chunkCalls :: "(ConsoleOutputType \<times> string) list \<Rightarrow> Call list" where
  "chunkCalls chunks = map (\<lambda>c. ConsoleOutput (fst c) (snd c)) chunks"

subsection \<open>The GCC diagnostics dialect\<close>

text \<open>
  Modelled from the spec: \<^verbatim>\<open>gccErrorParser\<close> is declared in SessionBuildErrors.hpp and
  defined outside this translation unit.  The model follows the contract of the
  Diagnostics Parser: the text is read line by line; a line of the form
  \<^verbatim>\<open>file:line:col: severity: message\<close>, with decimal line and column and one of the
  keywords error, warning and note, gives one record; a relative file is resolved against
  the base directory; any other line gives no record.
\<close>

fun splitLines :: "string \<Rightarrow> string list" where
  "splitLines [] = [[]]"
| "splitLines (c # cs) =
     (if c = CHR 0x0A then [] # splitLines cs
      else (case splitLines cs of [] \<Rightarrow> [[c]] | l # ls \<Rightarrow> (c # l) # ls))"

definition splitColon :: "string \<Rightarrow> (string \<times> string) option" where
  "splitColon s =
     (if CHR '':'' \<in> set s
      then Some (takeWhile (\<lambda>c. c \<noteq> CHR '':'') s, tl (dropWhile (\<lambda>c. c \<noteq> CHR '':'') s))
      else None)"

definition isDigit :: "char \<Rightarrow> bool" where
  "isDigit c \<longleftrightarrow> 48 \<le> (of_char c :: nat) \<and> (of_char c :: nat) \<le> 57"

definition isNumber :: "string \<Rightarrow> bool" where
  "isNumber s \<longleftrightarrow> s \<noteq> [] \<and> list_all isDigit s"

definition toNumber :: "string \<Rightarrow> nat" where
  "toNumber s = foldl (\<lambda>n c. 10 * n + (of_char c - 48)) 0 s"

definition resolvePath :: "FilePath \<Rightarrow> string \<Rightarrow> FilePath" where
  "resolvePath base file =
     (if file \<noteq> [] \<and> hd file = CHR ''/'' then file else base @ ''/'' @ file)"

definition parseGccLine :: "FilePath \<Rightarrow> string \<Rightarrow> CompileError option" where
  "parseGccLine base l =
     (case splitColon l of
        None \<Rightarrow> None
      | Some (file, r1) \<Rightarrow>
     (case splitColon r1 of
        None \<Rightarrow> None
      | Some (lineNo, r2) \<Rightarrow>
     (case splitColon r2 of
        None \<Rightarrow> None
      | Some (colNo, r3) \<Rightarrow>
     (case splitColon r3 of
        None \<Rightarrow> None
      | Some (keyword, message) \<Rightarrow>
          if file \<noteq> [] \<and> isNumber lineNo \<and> isNumber colNo
             \<and> keyword \<in> set ['' error'', '' warning'', '' note'']
             \<and> message \<noteq> [] \<and> hd message = CHR '' '' \<and> tl message \<noteq> []
          then Some \<lparr>errorFile = resolvePath base file,
                     errorLine = toNumber lineNo,
                     errorColumn = toNumber colNo,
                     errorSeverity = tl keyword,
                     errorMessage = tl message\<rparr>
          else None))))"

definition gccDialectParser :: "FilePath \<Rightarrow> string \<Rightarrow> CompileError list" where
  "gccDialectParser base text = List.map_filter (parseGccLine base) (splitLines text)"

subsection \<open>A sample configuration\<close>

text \<open>
  One instance of the external parts, to evaluate the session on concrete inputs: a
  toolchain that is found, and prepended to PATH unless PATH already starts with it, on
  the platform with the multiplexed console channel.
\<close>

definition sampleRtools :: "string \<Rightarrow> string \<Rightarrow> bool \<times> string \<times> string" where
  "sampleRtools path warning =
     (if take 12 path = ''/rtools/bin:'' then (False, path, warning)
      else (True, ''/rtools/bin:'' @ path, warning))"

definition sampleParent :: "FilePath \<Rightarrow> FilePath" where
  "sampleParent file = rev (tl (dropWhile (\<lambda>c. c \<noteq> CHR ''/'') (rev file)))"

definition sampleExternals :: Externals where
  "sampleExternals =
     \<lparr>addRtoolsToPathIfNecessary = sampleRtools,
      gccErrorParser = gccDialectParser,
      createAliasedPath = (\<lambda>file. file),
      parent = sampleParent,
      win32 = True,
      writeErrorFiresEvent = True\<rparr>"

section \<open>Properties\<close>

subsection \<open>Auxiliary facts\<close>

lemma ends_with_newline: "ends_with s newline \<longleftrightarrow> s \<noteq> [] \<and> last s = CHR 0x0A"
proof (cases s rule: rev_cases)
  case Nil
  then show ?thesis by (simp add: ends_with_def newline_def)
next
  case (snoc ys y)
  then show ?thesis by (simp add: ends_with_def newline_def)
qed

lemma ends_with_append_newline: "ends_with (s @ newline) newline"
  by (simp add: ends_with_def newline_def)

lemma terminateLine_idem: "terminateLine ex (terminateLine ex s) = terminateLine ex s"
  by (simp add: terminateLine_def ends_with_append_newline)

lemma fst_reset: "fst (reset ctx p) = initialContext"
  by (simp add: reset_def initialContext_def)

lemma snd_reset: "snd (reset ctx p) = p\<lparr>connected := False\<rparr>"
  by (simp add: reset_def)

lemma onBuild_eq:
  "onBuild ex file fc so ctx p =
     (True,
      \<lparr>sourceFile = file, showOutput = so, fromCode = fc,
       consoleOutputBuffer = [], consoleErrorBuffer = [],
       previousPath = (if patchApplies ex (envPATH p) then envPATH p else []),
       rToolsWarning = patchWarning ex (envPATH p)\<rparr>,
      p\<lparr>envPATH := (if patchApplies ex (envPATH p) then patchedPath ex (envPATH p) else envPATH p),
        pathWrites := pathWrites p @
          (if patchApplies ex (envPATH p) then [patchedPath ex (envPATH p)] else []),
        connected := True,
        clientEvents := clientEvents p @ [kSourceCppStarted]\<rparr>)"
  by (simp add: onBuild_def reset_def setenvPATH_def enqueSourceCppStarted_def
      enqueClientEvent_def Let_def split_beta patchApplies_def patchedPath_def patchWarning_def)

lemma showRToolsWarning_fields:
  "sourceFile (fst (showRToolsWarning ex s ctx p)) = sourceFile ctx"
  "fromCode (fst (showRToolsWarning ex s ctx p)) = fromCode ctx"
  "showOutput (fst (showRToolsWarning ex s ctx p)) = showOutput ctx"
  "consoleOutputBuffer (fst (showRToolsWarning ex s ctx p)) = consoleOutputBuffer ctx"
  "previousPath (fst (showRToolsWarning ex s ctx p)) = previousPath ctx"
  "rToolsWarning (fst (showRToolsWarning ex s ctx p)) = rToolsWarning ctx"
  by (simp_all add: showRToolsWarning_def consoleWriteError_def onConsoleOutput_def Let_def)

lemma showRToolsWarning_process:
  "snd (showRToolsWarning ex s ctx p) =
     p\<lparr>consoleErrorStream := consoleErrorStream p @
          (if \<not> s \<and> rToolsWarning ctx \<noteq> [] then [rToolsWarning ctx] else [])\<rparr>"
  by (simp add: showRToolsWarning_def consoleWriteError_def Let_def)

lemma errorBuffer_after_warning:
  "consoleErrorBuffer (fst (showRToolsWarning ex succeeded ctx p)) =
     consoleErrorBuffer ctx @
       (if \<not> succeeded \<and> rToolsWarning ctx \<noteq> [] \<and> writeErrorFiresEvent ex \<and> connected p
        then terminateLine ex (rToolsWarning ctx) else [])"
  by (simp add: showRToolsWarning_def consoleWriteError_def onConsoleOutput_def Let_def)

lemma connected_restorePreviousPath: "connected (restorePreviousPath ctx p) = connected p"
  by (simp add: restorePreviousPath_def setenvPATH_def)

lemma handleBuildComplete_eq:
  "handleBuildComplete ex succeeded out ctx p =
     (initialContext,
      p\<lparr>envPATH := (if previousPath ctx \<noteq> [] then previousPath ctx else envPATH p),
        pathWrites := pathWrites p @ (if previousPath ctx \<noteq> [] then [previousPath ctx] else []),
        connected := False,
        clientEvents := clientEvents p @
          (if fromCode ctx then []
           else [kSourceCppCompleted
                   (completedState ex (sourceFile ctx) (collectBuildOutput succeeded out ctx)
                      (consoleErrorBuffer ctx @
                         (if \<not> succeeded \<and> rToolsWarning ctx \<noteq> []
                             \<and> writeErrorFiresEvent ex \<and> connected p
                          then terminateLine ex (rToolsWarning ctx) else [])))]),
        consoleErrorStream := consoleErrorStream p @
          (if \<not> succeeded \<and> rToolsWarning ctx \<noteq> [] then [rToolsWarning ctx] else [])\<rparr>)"
  by (simp add: handleBuildComplete_def Let_def split_beta fst_reset snd_reset
      showRToolsWarning_fields showRToolsWarning_process errorBuffer_after_warning
      connected_restorePreviousPath restorePreviousPath_def
      setenvPATH_def enqueSourceCppCompleted_def enqueClientEvent_def prod_eq_iff)

lemma run_append: "run ex (xs @ ys) st = run ex ys (run ex xs st)"
  by (induction xs arbitrary: st) simp_all

lemma run_chunkCalls:
  "connected p \<Longrightarrow>
   run ex (chunkCalls cs) (ctx, p) =
     (ctx\<lparr>consoleOutputBuffer := consoleOutputBuffer ctx @ captured ex ConsoleOutputNormal cs,
          consoleErrorBuffer := consoleErrorBuffer ctx @ captured ex ConsoleOutputError cs\<rparr>, p)"
proof (induction cs arbitrary: ctx)
  case Nil
  then show ?case by (simp add: chunkCalls_def captured_def)
next
  case (Cons c cs)
  have "run ex (chunkCalls (c # cs)) (ctx, p) =
          run ex (chunkCalls cs) (onConsoleOutput ex (fst c) (snd c) ctx, p)"
    using Cons.prems by (simp add: chunkCalls_def)
  also have "\<dots> =
      (ctx\<lparr>consoleOutputBuffer :=
             consoleOutputBuffer ctx @ captured ex ConsoleOutputNormal (c # cs),
           consoleErrorBuffer :=
             consoleErrorBuffer ctx @ captured ex ConsoleOutputError (c # cs)\<rparr>, p)"
    using Cons.prems
    by (cases "fst c") (simp_all add: Cons.IH onConsoleOutput_def captured_def Let_def)
  finally show ?case .
qed

lemma run_chunkCalls_process: "snd (run ex (chunkCalls cs) (ctx, p)) = p"
  by (induction cs arbitrary: ctx) (simp_all add: chunkCalls_def)

lemma completedPayloads_append:
  "completedPayloads (xs @ ys) = completedPayloads xs @ completedPayloads ys"
  by (induction xs rule: completedPayloads.induct) simp_all

lemma outputs_completedState:
  "outputs (completedState ex file output errorOutput) =
     [\<lparr>outputType = kBuildOutputNormal, outputText = output\<rparr>,
      \<lparr>outputType = kBuildOutputError, outputText = errorOutput\<rparr>]"
  by (simp add: completedState_def addOutput_def emptySourceCppState_def Let_def)

lemma terminateLine_win32:
  "win32 ex \<Longrightarrow>
   terminateLine ex s = (if s \<noteq> [] \<and> last s = CHR 0x0A then s else s @ [CHR 0x0A])"
  unfolding terminateLine_def ends_with_newline by (simp add: newline_def)

subsection \<open>Console capture: line termination\<close>

text \<open>
  C8: where \<^verbatim>\<open>_WIN32\<close> is defined, a chunk that does not end in a newline is stored
  with exactly one newline appended, a chunk that ends in a newline is stored unchanged, the
  chunk goes to the buffer of its channel, and terminating a line twice is the same as
  terminating it once.
\<close>

theorem onConsoleOutput_win32_newline:
  "win32 ex \<Longrightarrow>
     onConsoleOutput ex ConsoleOutputNormal output ctx =
       ctx\<lparr>consoleOutputBuffer := consoleOutputBuffer ctx @
             (if output \<noteq> [] \<and> last output = CHR 0x0A then output else output @ [CHR 0x0A])\<rparr>
   \<and> onConsoleOutput ex ConsoleOutputError output ctx =
       ctx\<lparr>consoleErrorBuffer := consoleErrorBuffer ctx @
             (if output \<noteq> [] \<and> last output = CHR 0x0A then output else output @ [CHR 0x0A])\<rparr>
   \<and> terminateLine ex (terminateLine ex output) = terminateLine ex output"
  by (simp add: onConsoleOutput_def Let_def terminateLine_win32 terminateLine_idem)

theorem onConsoleOutput_win32_newline_witness:
  "win32 sampleExternals
   \<and> onConsoleOutput sampleExternals ConsoleOutputNormal ''abc'' initialContext =
       initialContext\<lparr>consoleOutputBuffer := ''abc\<newline>''\<rparr>
   \<and> onConsoleOutput sampleExternals ConsoleOutputError ''abc\<newline>'' initialContext =
       initialContext\<lparr>consoleErrorBuffer := ''abc\<newline>''\<rparr>"
  using onConsoleOutput_win32_newline [of sampleExternals "''abc''" initialContext]
    onConsoleOutput_win32_newline [of sampleExternals "''abc\<newline>''" initialContext]
  by (simp add: sampleExternals_def initialContext_def)

subsection \<open>The toolchain warning\<close>

text \<open>
  C7: \<^verbatim>\<open>handleBuildComplete\<close> writes the toolchain warning to the console error
  stream exactly when the build failed and the warning is not empty; otherwise it writes
  nothing to that stream.
\<close>

theorem rToolsWarning_shown_iff_failed:
  "consoleErrorStream (snd (handleBuildComplete ex succeeded output ctx p)) =
     consoleErrorStream p @
       (if \<not> succeeded \<and> rToolsWarning ctx \<noteq> [] then [rToolsWarning ctx] else [])"
  by (simp add: handleBuildComplete_eq)

theorem rToolsWarning_shown_iff_failed_witness:
  "consoleErrorStream (snd (handleBuildComplete sampleExternals False []
       (initialContext\<lparr>rToolsWarning := ''Rtools not found''\<rparr>) (initialProcess ''/usr/bin''))) =
     [''Rtools not found'']
   \<and> consoleErrorStream (snd (handleBuildComplete sampleExternals True []
       (initialContext\<lparr>rToolsWarning := ''Rtools not found''\<rparr>) (initialProcess ''/usr/bin''))) = []
   \<and> consoleErrorStream (snd (handleBuildComplete sampleExternals False []
       initialContext (initialProcess ''/usr/bin''))) = []"
  using rToolsWarning_shown_iff_failed [of sampleExternals False "[]"
      "initialContext\<lparr>rToolsWarning := ''Rtools not found''\<rparr>" "initialProcess ''/usr/bin''"]
    rToolsWarning_shown_iff_failed [of sampleExternals True "[]"
      "initialContext\<lparr>rToolsWarning := ''Rtools not found''\<rparr>" "initialProcess ''/usr/bin''"]
    rToolsWarning_shown_iff_failed [of sampleExternals False "[]"
      initialContext "initialProcess ''/usr/bin''"]
  by (simp add: initialContext_def initialProcess_def)

subsection \<open>The completed event\<close>

lemma step_completed_outputs:
  assumes "list_all (\<lambda>s. map outputType (outputs s) = [kBuildOutputNormal, kBuildOutputError])
             (completedPayloads (clientEvents (snd st)))"
  shows "list_all (\<lambda>s. map outputType (outputs s) = [kBuildOutputNormal, kBuildOutputError])
           (completedPayloads (clientEvents (snd (step ex c st))))"
proof (cases st)
  case (Pair ctx p)
  show ?thesis
  proof (cases c)
    case (Build f fc so)
    then show ?thesis using assms Pair
      by (simp add: onBuild_eq completedPayloads_append)
  next
    case (ConsoleOutput t s)
    then show ?thesis using assms Pair by simp
  next
    case (BuildComplete s out)
    then show ?thesis using assms Pair
      by (simp add: onBuildComplete_def scheduleDelayedWork_def)
  next
    case DelayedWork
    then show ?thesis using assms Pair
      by (simp add: handleBuildComplete_eq completedPayloads_append
          outputs_completedState split: list.splits)
  qed
qed

lemma run_completed_outputs:
  "list_all (\<lambda>s. map outputType (outputs s) = [kBuildOutputNormal, kBuildOutputError])
     (completedPayloads (clientEvents (snd st))) \<Longrightarrow>
   list_all (\<lambda>s. map outputType (outputs s) = [kBuildOutputNormal, kBuildOutputError])
     (completedPayloads (clientEvents (snd (run ex calls st))))"
  by (induction calls arbitrary: st) (simp_all add: step_completed_outputs)

text \<open>
  C10: \<^verbatim>\<open>enqueSourceCppCompleted\<close> puts exactly two outputs in the payload, the
  normal one with the build output it was given and then the error one with the error
  output it was given; \<^verbatim>\<open>handleBuildComplete\<close> passes the collected build output and
  the console error buffer as it is at that point (with the warning at its end when the
  build failed and writing the warning fired the console event); and along any sequence of
  calls every completed event in the queue has exactly a normal output followed by an error
  output.
\<close>

theorem completed_outputs_normal_then_error:
  "map outputs (completedPayloads (clientEvents
        (enqueSourceCppCompleted ex f buildOutput errorOutput p))) =
     map outputs (completedPayloads (clientEvents p)) @
       [[\<lparr>outputType = kBuildOutputNormal, outputText = buildOutput\<rparr>,
         \<lparr>outputType = kBuildOutputError, outputText = errorOutput\<rparr>]]
   \<and> (\<not> fromCode ctx \<longrightarrow>
      map outputs (completedPayloads (clientEvents (snd (handleBuildComplete ex succeeded out ctx p)))) =
        map outputs (completedPayloads (clientEvents p)) @
          [[\<lparr>outputType = kBuildOutputNormal,
             outputText = collectBuildOutput succeeded out ctx\<rparr>,
            \<lparr>outputType = kBuildOutputError,
             outputText = consoleErrorBuffer ctx @
               (if \<not> succeeded \<and> rToolsWarning ctx \<noteq> [] \<and> writeErrorFiresEvent ex \<and> connected p
                then terminateLine ex (rToolsWarning ctx) else [])\<rparr>]])
   \<and> list_all (\<lambda>s. map outputType (outputs s) = [kBuildOutputNormal, kBuildOutputError])
        (completedPayloads (clientEvents (snd (run ex calls (initialContext, initialProcess path)))))"
proof -
  have "list_all (\<lambda>s. map outputType (outputs s) = [kBuildOutputNormal, kBuildOutputError])
          (completedPayloads (clientEvents (snd (run ex calls (initialContext, initialProcess path)))))"
    by (rule run_completed_outputs) (simp add: initialProcess_def)
  then show ?thesis
    by (simp add: handleBuildComplete_eq completedPayloads_append outputs_completedState
        errorBuffer_after_warning connected_restorePreviousPath enqueSourceCppCompleted_def
        enqueClientEvent_def)
qed

theorem completed_outputs_normal_then_error_witness:
  "\<not> fromCode (initialContext\<lparr>consoleOutputBuffer := ''compiling\<newline>'',
                                consoleErrorBuffer := ''x.cpp:3:1: error: bad\<newline>''\<rparr>)
   \<and> map outputs (completedPayloads (clientEvents (snd (handleBuildComplete sampleExternals False []
        (initialContext\<lparr>consoleOutputBuffer := ''compiling\<newline>'',
                        consoleErrorBuffer := ''x.cpp:3:1: error: bad\<newline>''\<rparr>)
        (initialProcess ''/usr/bin''))))) =
       [[\<lparr>outputType = kBuildOutputNormal, outputText = ''compiling\<newline>''\<rparr>,
         \<lparr>outputType = kBuildOutputError, outputText = ''x.cpp:3:1: error: bad\<newline>''\<rparr>]]"
  using completed_outputs_normal_then_error [where ex = sampleExternals
      and ctx = "initialContext\<lparr>consoleOutputBuffer := ''compiling\<newline>'',
                      consoleErrorBuffer := ''x.cpp:3:1: error: bad\<newline>''\<rparr>"
      and succeeded = False and out = "[]" and p = "initialProcess ''/usr/bin''"
      and f = "[]" and buildOutput = "[]" and errorOutput = "[]" and calls = "[]"
      and path = "[]"]
  by (simp add: initialContext_def initialProcess_def collectBuildOutput_def)

text \<open>
  C1, as stated, fails: a build from code is finalized (PATH is patched and restored) and
  no completed event is enqueued.
\<close>

theorem completed_not_emitted_fromCode:
  "completedPayloads (clientEvents (snd (run sampleExternals
      [Build ''/src/x.cpp'' True False,
       ConsoleOutput ConsoleOutputNormal ''compiling\<newline>'',
       BuildComplete True ''done'',
       DelayedWork]
      (initialContext, initialProcess ''/usr/bin'')))) = []
   \<and> pathWrites (snd (run sampleExternals
      [Build ''/src/x.cpp'' True False,
       ConsoleOutput ConsoleOutputNormal ''compiling\<newline>'',
       BuildComplete True ''done'',
       DelayedWork]
      (initialContext, initialProcess ''/usr/bin''))) = [''/rtools/bin:/usr/bin'', ''/usr/bin'']"
  by (simp add: onBuild_eq handleBuildComplete_eq sampleExternals_def sampleRtools_def patchApplies_def patchedPath_def patchWarning_def
      initialContext_def initialProcess_def onConsoleOutput_def terminateLine_def
      onBuildComplete_def scheduleDelayedWork_def Let_def)

text \<open>
  C1, amended: \<^verbatim>\<open>handleBuildComplete\<close> enqueues one completed event, whose errors are
  the result of the parser on the build output, a newline and the error output, exactly when
  \<^verbatim>\<open>fromCode_\<close> is false, and enqueues nothing when it is true; in both cases the
  context is cleared afterwards.
\<close>

theorem finalize_emits_completed_unless_fromCode:
  "clientEvents (snd (handleBuildComplete ex succeeded out ctx p)) =
     clientEvents p @
       (if fromCode ctx then []
        else [kSourceCppCompleted
                (completedState ex (sourceFile ctx) (collectBuildOutput succeeded out ctx)
                   (consoleErrorBuffer ctx @
                      (if \<not> succeeded \<and> rToolsWarning ctx \<noteq> [] \<and> writeErrorFiresEvent ex \<and> connected p
                       then terminateLine ex (rToolsWarning ctx) else [])))])
   \<and> errors (completedState ex f buildOutput errorOutput) =
       gccErrorParser ex (parent ex f) (buildOutput @ newline @ errorOutput)
   \<and> fst (handleBuildComplete ex succeeded out ctx p) = initialContext"
  by (simp add: handleBuildComplete_eq errorBuffer_after_warning connected_restorePreviousPath
      completedState_def Let_def)

theorem finalize_emits_completed_unless_fromCode_witness:
  "clientEvents (snd (handleBuildComplete sampleExternals True ''done''
       (initialContext\<lparr>sourceFile := ''/src/x.cpp'', fromCode := True\<rparr>)
       (initialProcess ''/usr/bin''))) = []
   \<and> clientEvents (snd (handleBuildComplete sampleExternals True ''done''
       (initialContext\<lparr>sourceFile := ''/src/x.cpp''\<rparr>)
       (initialProcess ''/usr/bin''))) =
       [kSourceCppCompleted
          \<lparr>targetFile = ''/src/x.cpp'', errors = [],
           outputs = [\<lparr>outputType = kBuildOutputNormal, outputText = ''done''\<rparr>,
                      \<lparr>outputType = kBuildOutputError, outputText = []\<rparr>]\<rparr>]"
  using finalize_emits_completed_unless_fromCode [of sampleExternals True "''done''"
      "initialContext\<lparr>sourceFile := ''/src/x.cpp'', fromCode := True\<rparr>"
      "initialProcess ''/usr/bin''" "[]" "[]" "[]"]
    finalize_emits_completed_unless_fromCode [of sampleExternals True "''done''"
      "initialContext\<lparr>sourceFile := ''/src/x.cpp''\<rparr>"
      "initialProcess ''/usr/bin''" "[]" "[]" "[]"]
  by (simp add: initialContext_def initialProcess_def collectBuildOutput_def completedState_def
      sampleExternals_def addOutput_def emptySourceCppState_def Let_def newline_def
      gccDialectParser_def sampleParent_def parseGccLine_def splitColon_def)

subsection \<open>Patching and restoring PATH\<close>

lemma run_single_build:
  assumes "delayedWork p = []"
  shows "run ex (Build f fc so # chunkCalls cs @ BuildComplete succeeded out # chunkCalls cs' @ [DelayedWork]) (ctx, p) =
          handleBuildComplete ex succeeded out
            \<lparr>sourceFile = f, showOutput = so, fromCode = fc,
             consoleOutputBuffer = captured ex ConsoleOutputNormal (cs @ cs'),
             consoleErrorBuffer = captured ex ConsoleOutputError (cs @ cs'),
             previousPath = (if patchApplies ex (envPATH p) then envPATH p else []),
             rToolsWarning = patchWarning ex (envPATH p)\<rparr>
            (p\<lparr>envPATH := (if patchApplies ex (envPATH p) then patchedPath ex (envPATH p) else envPATH p),
               pathWrites := pathWrites p @
                 (if patchApplies ex (envPATH p) then [patchedPath ex (envPATH p)] else []),
               connected := True,
               clientEvents := clientEvents p @ [kSourceCppStarted],
               delayedWork := []\<rparr>)"
  using assms
  by (simp add: run_append onBuild_eq run_chunkCalls onBuildComplete_def scheduleDelayedWork_def
      captured_def)

lemma step_previousPath_invariant:
  assumes "previousPath (fst st) \<noteq> [] \<longrightarrow>
             patchApplies ex (previousPath (fst st))
             \<and> envPATH (snd st) = patchedPath ex (previousPath (fst st))"
  shows "previousPath (fst (step ex c st)) \<noteq> [] \<longrightarrow>
             patchApplies ex (previousPath (fst (step ex c st)))
             \<and> envPATH (snd (step ex c st)) =
                 patchedPath ex (previousPath (fst (step ex c st)))"
proof (cases st)
  case (Pair ctx p)
  show ?thesis
  proof (cases c)
    case (Build f fc so)
    then show ?thesis using Pair
      by (simp add: onBuild_eq)
  next
    case (ConsoleOutput t s)
    then show ?thesis using assms Pair
      by (simp add: onConsoleOutput_def Let_def)
  next
    case (BuildComplete s out)
    then show ?thesis using assms Pair
      by (simp add: onBuildComplete_def scheduleDelayedWork_def)
  next
    case DelayedWork
    then show ?thesis using assms Pair
      by (simp add: handleBuildComplete_eq initialContext_def split: list.splits)
  qed
qed

lemma run_previousPath_invariant:
  "previousPath (fst st) \<noteq> [] \<longrightarrow>
     patchApplies ex (previousPath (fst st))
     \<and> envPATH (snd st) = patchedPath ex (previousPath (fst st))
   \<Longrightarrow>
   previousPath (fst (run ex calls st)) \<noteq> [] \<longrightarrow>
     patchApplies ex (previousPath (fst (run ex calls st)))
     \<and> envPATH (snd (run ex calls st)) =
         patchedPath ex (previousPath (fst (run ex calls st)))"
proof (induction calls arbitrary: st)
  case Nil
  then show ?case by simp
next
  case (Cons c calls)
  show ?case
    unfolding run.simps
    by (rule Cons.IH) (rule step_previousPath_invariant, rule Cons.prems)
qed

text \<open>
  C3, as stated, fails when PATH was empty before the patch: the saved value is then empty,
  the restore is skipped and PATH keeps the patched value.
\<close>

theorem path_not_restored_when_empty:
  "envPATH (snd (run sampleExternals
      [Build ''/src/x.cpp'' False False, BuildComplete True ''done'', DelayedWork]
      (initialContext, initialProcess []))) = ''/rtools/bin:''
   \<and> pathWrites (snd (run sampleExternals
      [Build ''/src/x.cpp'' False False, BuildComplete True ''done'', DelayedWork]
      (initialContext, initialProcess []))) = [''/rtools/bin:'']
   \<and> envPATH (snd (run sampleExternals
      [Build ''/src/x.cpp'' False False, BuildComplete True ''done'', DelayedWork]
      (initialContext, initialProcess []))) \<noteq> envPATH (initialProcess [])"
  by (simp add: onBuild_eq handleBuildComplete_eq sampleExternals_def sampleRtools_def patchApplies_def patchedPath_def patchWarning_def
      initialContext_def initialProcess_def onBuildComplete_def scheduleDelayedWork_def)

text \<open>
  C3, amended: for one build (start, chunks, completion, more chunks, the delayed
  finalize), PATH after the finalize equals PATH before the start whenever that value was
  not empty or no patch was applied; when no patch was applied nothing is written to PATH,
  and a finalize with no saved value leaves PATH alone.
\<close>

theorem path_restored_after_build:
  assumes "delayedWork p = []"
    and "envPATH p \<noteq> [] \<or> \<not> patchApplies ex (envPATH p)"
  shows "envPATH (snd (run ex
           (Build f fc so # chunkCalls cs @ BuildComplete succeeded out # chunkCalls cs' @ [DelayedWork])
           (ctx, p))) = envPATH p
       \<and> (\<not> patchApplies ex (envPATH p) \<longrightarrow>
            pathWrites (snd (run ex
              (Build f fc so # chunkCalls cs @ BuildComplete succeeded out # chunkCalls cs' @ [DelayedWork])
              (ctx, p))) = pathWrites p)
       \<and> (previousPath ctx = [] \<longrightarrow>
            envPATH (snd (handleBuildComplete ex succeeded out ctx p)) = envPATH p
            \<and> pathWrites (snd (handleBuildComplete ex succeeded out ctx p)) = pathWrites p)"
  unfolding run_single_build [OF assms(1)] handleBuildComplete_eq
  using assms(2) by auto

theorem path_restored_after_build_witness:
  "delayedWork (initialProcess ''/usr/bin'') = []
   \<and> envPATH (initialProcess ''/usr/bin'') \<noteq> []
   \<and> patchApplies sampleExternals (envPATH (initialProcess ''/usr/bin''))
   \<and> envPATH (snd (run sampleExternals
        (Build ''/src/x.cpp'' False False # chunkCalls [(ConsoleOutputNormal, ''compiling'')]
           @ BuildComplete True ''done'' # chunkCalls [] @ [DelayedWork])
        (initialContext, initialProcess ''/usr/bin''))) = ''/usr/bin''
   \<and> delayedWork (initialProcess ''/rtools/bin:/usr/bin'') = []
   \<and> \<not> patchApplies sampleExternals (envPATH (initialProcess ''/rtools/bin:/usr/bin''))
   \<and> previousPath initialContext = []
   \<and> envPATH (snd (run sampleExternals
        (Build ''/src/x.cpp'' False False # chunkCalls []
           @ BuildComplete False [] # chunkCalls [] @ [DelayedWork])
        (initialContext, initialProcess ''/rtools/bin:/usr/bin''))) = ''/rtools/bin:/usr/bin''
   \<and> pathWrites (snd (run sampleExternals
        (Build ''/src/x.cpp'' False False # chunkCalls []
           @ BuildComplete False [] # chunkCalls [] @ [DelayedWork])
        (initialContext, initialProcess ''/rtools/bin:/usr/bin''))) = []
   \<and> pathWrites (snd (handleBuildComplete sampleExternals False [] initialContext
        (initialProcess ''/rtools/bin:/usr/bin''))) = []"
  using path_restored_after_build [of "initialProcess ''/usr/bin''" sampleExternals
      "''/src/x.cpp''" False False "[(ConsoleOutputNormal, ''compiling'')]" True "''done''" "[]"
      initialContext]
    path_restored_after_build [of "initialProcess ''/rtools/bin:/usr/bin''" sampleExternals
      "''/src/x.cpp''" False False "[]" False "[]" "[]" initialContext]
  by (simp add: initialProcess_def initialContext_def sampleExternals_def sampleRtools_def
      patchApplies_def patchedPath_def patchWarning_def)

text \<open>
  C4, as stated, fails: the restore does not occur for every build.  With two starts and
  no finalize between them, both builds failing and both delayed finalizes run, PATH is
  written once, by the patch of the first start, and never restored; and a build that
  patches an empty PATH and fails is finalized without a write to PATH.
\<close>

theorem patch_without_restore:
  "pathWrites (snd (run sampleExternals
      [Build ''/src/a.cpp'' False False,
       BuildComplete False [],
       Build ''/src/b.cpp'' False False,
       BuildComplete False [],
       DelayedWork,
       DelayedWork]
      (initialContext, initialProcess ''/usr/bin''))) = [''/rtools/bin:/usr/bin'']
   \<and> delayedWork (snd (run sampleExternals
      [Build ''/src/a.cpp'' False False,
       BuildComplete False [],
       Build ''/src/b.cpp'' False False,
       BuildComplete False [],
       DelayedWork,
       DelayedWork]
      (initialContext, initialProcess ''/usr/bin''))) = []
   \<and> pathWrites (snd (run sampleExternals
      [Build ''/src/a.cpp'' False False,
       BuildComplete False [],
       DelayedWork]
      (initialContext, initialProcess []))) = [''/rtools/bin:'']"
  by (simp add: onBuild_eq handleBuildComplete_eq sampleExternals_def sampleRtools_def
      patchApplies_def patchedPath_def patchWarning_def
      initialContext_def initialProcess_def onBuildComplete_def scheduleDelayedWork_def)

text \<open>
  C4, amended: along any sequence of calls from the initial state, a non-empty
  \<^verbatim>\<open>previousPath_\<close> is a value on which the patch applied and PATH holds the patched
  value; \<^verbatim>\<open>handleBuildComplete\<close> always leaves it empty; whatever the outcome and the
  output, \<^verbatim>\<open>handleBuildComplete\<close> is the restore step followed by the rest of the
  finalize, and the restore step sets PATH to the saved value, with exactly that one write,
  when a non-empty value is saved, and writes nothing otherwise; a finalize that follows
  writes nothing more; so a build that patched a non-empty PATH and is finalized before
  another start writes PATH exactly twice, the patched value at the start and the original
  value at the finalize.
\<close>

theorem previousPath_only_while_patched:
  "(previousPath (fst (run ex calls (initialContext, initialProcess path))) \<noteq> [] \<longrightarrow>
      patchApplies ex
             (previousPath (fst (run ex calls (initialContext, initialProcess path))))
      \<and> envPATH (snd (run ex calls (initialContext, initialProcess path))) =
          patchedPath ex
             (previousPath (fst (run ex calls (initialContext, initialProcess path)))))
   \<and> previousPath (fst (handleBuildComplete ex succeeded out ctx p)) = []
   \<and> envPATH (snd (handleBuildComplete ex succeeded out ctx p)) =
       (if previousPath ctx \<noteq> [] then previousPath ctx else envPATH p)
   \<and> pathWrites (snd (handleBuildComplete ex succeeded out ctx p)) =
       pathWrites p @ (if previousPath ctx \<noteq> [] then [previousPath ctx] else [])
   \<and> pathWrites (snd (handleBuildComplete ex succeeded' out'
         (fst (handleBuildComplete ex succeeded out ctx p))
         (snd (handleBuildComplete ex succeeded out ctx p)))) =
       pathWrites (snd (handleBuildComplete ex succeeded out ctx p))
   \<and> handleBuildComplete ex succeeded out ctx p =
       handleBuildComplete ex succeeded out (ctx\<lparr>previousPath := []\<rparr>)
         (restorePreviousPath ctx p)
   \<and> (delayedWork p = [] \<and> patchApplies ex (envPATH p) \<and> envPATH p \<noteq> [] \<longrightarrow>
        pathWrites (snd (run ex
          (Build f fc so # chunkCalls cs @ BuildComplete succeeded out # chunkCalls cs' @ [DelayedWork])
          (ctx, p))) = pathWrites p @ [patchedPath ex (envPATH p), envPATH p])"
proof -
  have restore_first: "handleBuildComplete ex succeeded out ctx p =
       handleBuildComplete ex succeeded out (ctx\<lparr>previousPath := []\<rparr>)
         (restorePreviousPath ctx p)"
    by (simp add: handleBuildComplete_eq restorePreviousPath_def setenvPATH_def
        collectBuildOutput_def)
  have inv: "previousPath (fst (run ex calls (initialContext, initialProcess path))) \<noteq> [] \<longrightarrow>
      patchApplies ex
             (previousPath (fst (run ex calls (initialContext, initialProcess path))))
      \<and> envPATH (snd (run ex calls (initialContext, initialProcess path))) =
          patchedPath ex
             (previousPath (fst (run ex calls (initialContext, initialProcess path))))"
    by (rule run_previousPath_invariant) (simp add: initialContext_def)
  have once: "delayedWork p = [] \<and> patchApplies ex (envPATH p) \<and> envPATH p \<noteq> [] \<longrightarrow>
        pathWrites (snd (run ex
          (Build f fc so # chunkCalls cs @ BuildComplete succeeded out # chunkCalls cs' @ [DelayedWork])
          (ctx, p))) = pathWrites p @ [patchedPath ex (envPATH p), envPATH p]"
  proof
    assume h: "delayedWork p = [] \<and> patchApplies ex (envPATH p) \<and> envPATH p \<noteq> []"
    then have dw: "delayedWork p = []" by simp
    show "pathWrites (snd (run ex
          (Build f fc so # chunkCalls cs @ BuildComplete succeeded out # chunkCalls cs' @ [DelayedWork])
          (ctx, p))) = pathWrites p @ [patchedPath ex (envPATH p), envPATH p]"
      unfolding run_single_build [OF dw] handleBuildComplete_eq using h by simp
  qed
  have finalize: "previousPath (fst (handleBuildComplete ex succeeded out ctx p)) = []
   \<and> envPATH (snd (handleBuildComplete ex succeeded out ctx p)) =
       (if previousPath ctx \<noteq> [] then previousPath ctx else envPATH p)
   \<and> pathWrites (snd (handleBuildComplete ex succeeded out ctx p)) =
       pathWrites p @ (if previousPath ctx \<noteq> [] then [previousPath ctx] else [])
   \<and> pathWrites (snd (handleBuildComplete ex succeeded' out'
         (fst (handleBuildComplete ex succeeded out ctx p))
         (snd (handleBuildComplete ex succeeded out ctx p)))) =
       pathWrites (snd (handleBuildComplete ex succeeded out ctx p))"
    by (simp add: handleBuildComplete_eq initialContext_def)
  show ?thesis
    using inv once finalize restore_first by blast
qed

theorem previousPath_only_while_patched_witness:
  "previousPath (fst (run sampleExternals
       [Build ''/src/x.cpp'' False False, ConsoleOutput ConsoleOutputError ''oops'']
       (initialContext, initialProcess ''/usr/bin''))) = ''/usr/bin''
   \<and> patchApplies sampleExternals ''/usr/bin''
   \<and> envPATH (snd (run sampleExternals
       [Build ''/src/x.cpp'' False False, ConsoleOutput ConsoleOutputError ''oops'']
       (initialContext, initialProcess ''/usr/bin''))) = ''/rtools/bin:/usr/bin''
   \<and> pathWrites (snd (handleBuildComplete sampleExternals False []
       (initialContext\<lparr>previousPath := ''/usr/bin''\<rparr>) (initialProcess ''/rtools/bin:/usr/bin''))) =
       [''/usr/bin'']
   \<and> delayedWork (initialProcess ''/usr/bin'') = []
   \<and> envPATH (initialProcess ''/usr/bin'') \<noteq> []
   \<and> pathWrites (snd (run sampleExternals
        (Build ''/src/x.cpp'' False False # chunkCalls [(ConsoleOutputError, ''oops'')]
           @ BuildComplete False [] # chunkCalls [] @ [DelayedWork])
        (initialContext, initialProcess ''/usr/bin''))) = [''/rtools/bin:/usr/bin'', ''/usr/bin'']"
  using previousPath_only_while_patched [where ex = sampleExternals
      and calls = "[Build ''/src/x.cpp'' False False, ConsoleOutput ConsoleOutputError ''oops'']"
      and path = "''/usr/bin''" and succeeded = False and out = "[]"
      and ctx = "initialContext\<lparr>previousPath := ''/usr/bin''\<rparr>"
      and p = "initialProcess ''/rtools/bin:/usr/bin''" and succeeded' = True and out' = "[]"
      and f = "[]" and fc = False and so = False and cs = "[]" and cs' = "[]"]
    previousPath_only_while_patched [where ex = sampleExternals
      and calls = "[]"
      and path = "''/usr/bin''" and succeeded = False and out = "[]"
      and ctx = initialContext
      and p = "initialProcess ''/usr/bin''" and succeeded' = True and out' = "[]"
      and f = "''/src/x.cpp''" and fc = False and so = False
      and cs = "[(ConsoleOutputError, ''oops'')]" and cs' = "[]"]
  by (simp add: onBuild_eq handleBuildComplete_eq restorePreviousPath_def setenvPATH_def
      sampleExternals_def sampleRtools_def initialContext_def
      initialProcess_def onConsoleOutput_def Let_def patchApplies_def patchedPath_def
      patchWarning_def)

subsection \<open>The build output of the completed event\<close>

text \<open>
  C2, as stated, fails: for a failed build the text selected as build output is the normal
  buffer alone, not the normal buffer followed by the error buffer; the error buffer is the
  second output of the payload.
\<close>

theorem build_output_is_not_transcript:
  "map outputs (completedPayloads (clientEvents (snd (run sampleExternals
      [Build ''/src/x.cpp'' False True,
       ConsoleOutput ConsoleOutputNormal ''compiling\<newline>'',
       ConsoleOutput ConsoleOutputError ''x.cpp:3:1: error: bad\<newline>'',
       BuildComplete False [],
       DelayedWork]
      (initialContext, initialProcess ''/usr/bin''))))) =
     [[\<lparr>outputType = kBuildOutputNormal, outputText = ''compiling\<newline>''\<rparr>,
       \<lparr>outputType = kBuildOutputError, outputText = ''x.cpp:3:1: error: bad\<newline>''\<rparr>]]
   \<and> collectBuildOutput False []
        (initialContext\<lparr>sourceFile := ''/src/x.cpp'', showOutput := True,
           consoleOutputBuffer := ''compiling\<newline>'',
           consoleErrorBuffer := ''x.cpp:3:1: error: bad\<newline>''\<rparr>) \<noteq>
       ''compiling\<newline>'' @ ''x.cpp:3:1: error: bad\<newline>''"
  by (simp add: onBuild_eq handleBuildComplete_eq sampleExternals_def sampleRtools_def
      patchApplies_def patchedPath_def patchWarning_def
      initialContext_def initialProcess_def onConsoleOutput_def terminateLine_def
      ends_with_def newline_def outputs_completedState collectBuildOutput_def
      onBuildComplete_def scheduleDelayedWork_def Let_def)

text \<open>
  C2, amended: when a completed event is emitted, the text of its first, normal output is
  \<^verbatim>\<open>consoleOutputBuffer_\<close> if the build failed or \<^verbatim>\<open>showOutput_\<close> is set, and
  the output reported by the tool otherwise; and in the scenario start of x.cpp with both
  flags false, the normal chunk "compiling", completion with success and "done", and the
  delayed finalize, the payload carries "done" and an empty error output.
\<close>

theorem finalize_selects_build_output:
  "(\<not> fromCode ctx \<longrightarrow>
      (\<exists>s. clientEvents (snd (handleBuildComplete ex succeeded out ctx p)) =
             clientEvents p @ [kSourceCppCompleted s]
           \<and> hd (outputs s) =
               \<lparr>outputType = kBuildOutputNormal,
                outputText = (if \<not> succeeded \<or> showOutput ctx then consoleOutputBuffer ctx else out)\<rparr>))
   \<and> map outputs (completedPayloads (clientEvents (snd (run ex
        [Build ''x.cpp'' False False,
         ConsoleOutput ConsoleOutputNormal ''compiling\<newline>'',
         BuildComplete True ''done'',
         DelayedWork]
        (initialContext, initialProcess path))))) =
       [[\<lparr>outputType = kBuildOutputNormal, outputText = ''done''\<rparr>,
         \<lparr>outputType = kBuildOutputError, outputText = []\<rparr>]]"
proof -
  have scenario: "run ex
        [Build ''x.cpp'' False False,
         ConsoleOutput ConsoleOutputNormal ''compiling\<newline>'',
         BuildComplete True ''done'',
         DelayedWork]
        (initialContext, initialProcess path) =
      run ex (Build ''x.cpp'' False False # chunkCalls [(ConsoleOutputNormal, ''compiling\<newline>'')]
        @ BuildComplete True ''done'' # chunkCalls [] @ [DelayedWork])
        (initialContext, initialProcess path)"
    by (simp add: chunkCalls_def)
  have "delayedWork (initialProcess path) = []"
    by (simp add: initialProcess_def)
  then show ?thesis
    unfolding scenario
    by (simp add: run_single_build handleBuildComplete_eq outputs_completedState
        collectBuildOutput_def completedPayloads_append initialProcess_def captured_def
        del: run.simps)
qed

theorem finalize_selects_build_output_witness:
  "\<not> fromCode (initialContext\<lparr>consoleOutputBuffer := ''compiling\<newline>''\<rparr>)
   \<and> (\<exists>s. clientEvents (snd (handleBuildComplete sampleExternals True ''done''
               (initialContext\<lparr>consoleOutputBuffer := ''compiling\<newline>''\<rparr>)
               (initialProcess ''/usr/bin''))) = [kSourceCppCompleted s]
          \<and> hd (outputs s) = \<lparr>outputType = kBuildOutputNormal, outputText = ''done''\<rparr>)"
  using finalize_selects_build_output [where ex = sampleExternals
      and ctx = "initialContext\<lparr>consoleOutputBuffer := ''compiling\<newline>''\<rparr>"
      and succeeded = True and out = "''done''" and p = "initialProcess ''/usr/bin''"
      and path = "[]"]
  by (simp add: initialContext_def initialProcess_def)

subsection \<open>Starting over a session in flight\<close>

text \<open>
  C5: after any calls, a start followed by chunks leaves the context with the target file
  and flags of that start, the buffers holding exactly the chunks delivered after it, in
  order and per channel, and the saved path and warning computed by that start from the
  PATH it found; nothing of the context before the start remains.
\<close>

theorem latest_start_discards_prior_session:
  "fst (run ex (pre @ Build f fc so # chunkCalls cs) st) =
     \<lparr>sourceFile = f, showOutput = so, fromCode = fc,
      consoleOutputBuffer = captured ex ConsoleOutputNormal cs,
      consoleErrorBuffer = captured ex ConsoleOutputError cs,
      previousPath = (if patchApplies ex (envPATH (snd (run ex pre st)))
                      then envPATH (snd (run ex pre st)) else []),
      rToolsWarning = patchWarning ex (envPATH (snd (run ex pre st)))\<rparr>"
proof -
  obtain ctx p where st': "run ex pre st = (ctx, p)"
    by (cases "run ex pre st")
  show ?thesis
    by (simp add: run_append st' onBuild_eq run_chunkCalls)
qed

theorem latest_start_discards_prior_session_witness:
  "fst (run sampleExternals
      ([Build ''/src/a.cpp'' True True, ConsoleOutput ConsoleOutputNormal ''old'',
        ConsoleOutput ConsoleOutputError ''old error'']
       @ Build ''/src/b.cpp'' False False
       # chunkCalls [(ConsoleOutputNormal, ''new''), (ConsoleOutputError, ''new error\<newline>'')])
      (initialContext, initialProcess ''/usr/bin'')) =
     \<lparr>sourceFile = ''/src/b.cpp'', showOutput = False, fromCode = False,
      consoleOutputBuffer = ''new\<newline>'',
      consoleErrorBuffer = ''new error\<newline>'',
      previousPath = [],
      rToolsWarning = []\<rparr>"
  using latest_start_discards_prior_session [of sampleExternals
      "[Build ''/src/a.cpp'' True True, ConsoleOutput ConsoleOutputNormal ''old'',
        ConsoleOutput ConsoleOutputError ''old error'']"
      "''/src/b.cpp''" False False
      "[(ConsoleOutputNormal, ''new''), (ConsoleOutputError, ''new error\<newline>'')]"
      "(initialContext, initialProcess ''/usr/bin'')"]
  by (simp add: onBuild_eq sampleExternals_def sampleRtools_def patchApplies_def patchedPath_def
      patchWarning_def initialContext_def initialProcess_def onConsoleOutput_def
      terminateLine_def ends_with_def newline_def captured_def Let_def)

text \<open>
  C6, as stated, fails: two starts without a finalize between them, then the finalize;
  the second start clears the saved value, finds the toolchain on PATH already and saves
  nothing, and PATH keeps the patched value instead of the original one.
\<close>

theorem original_path_lost_after_two_starts:
  "envPATH (snd (run sampleExternals
      [Build ''/src/a.cpp'' False False,
       Build ''/src/b.cpp'' False False,
       BuildComplete True ''done'',
       DelayedWork]
      (initialContext, initialProcess ''/usr/bin''))) = ''/rtools/bin:/usr/bin''
   \<and> envPATH (snd (run sampleExternals
      [Build ''/src/a.cpp'' False False,
       Build ''/src/b.cpp'' False False,
       BuildComplete True ''done'',
       DelayedWork]
      (initialContext, initialProcess ''/usr/bin''))) \<noteq> envPATH (initialProcess ''/usr/bin'')"
  by (simp add: onBuild_eq handleBuildComplete_eq sampleExternals_def sampleRtools_def
      patchApplies_def patchedPath_def patchWarning_def
      initialContext_def initialProcess_def onBuildComplete_def scheduleDelayedWork_def)

text \<open>
  C6, amended: after two starts with no finalize between them, the finalize sets PATH to
  the value it had just before the second start, that is, after the first start (except
  that an empty value patched by the second start is not restored); that value is the
  original PATH only when the first start did not patch it.
\<close>

theorem second_start_recaptures_path:
  assumes "delayedWork p = []"
  shows "envPATH (snd (run ex
           (Build f1 fc1 so1 # chunkCalls cs1 @
            Build f2 fc2 so2 # chunkCalls cs2 @ BuildComplete succeeded out # chunkCalls cs3 @
            [DelayedWork])
           (ctx, p))) =
         (if patchApplies ex (envPATH (snd (run ex [Build f1 fc1 so1] (ctx, p))))
             \<and> envPATH (snd (run ex [Build f1 fc1 so1] (ctx, p))) = []
          then patchedPath ex []
          else envPATH (snd (run ex [Build f1 fc1 so1] (ctx, p))))
       \<and> envPATH (snd (run ex [Build f1 fc1 so1] (ctx, p))) =
           (if patchApplies ex (envPATH p) then patchedPath ex (envPATH p) else envPATH p)"
proof -
  obtain ctx1 p1 where st1: "run ex (Build f1 fc1 so1 # chunkCalls cs1) (ctx, p) = (ctx1, p1)"
    by (cases "run ex (Build f1 fc1 so1 # chunkCalls cs1) (ctx, p)")
  have p1: "p1 = snd (run ex [Build f1 fc1 so1] (ctx, p))"
    using st1 run_chunkCalls_process [of ex cs1 "fst (snd (onBuild ex f1 fc1 so1 ctx p))"
        "snd (snd (onBuild ex f1 fc1 so1 ctx p))"]
    by simp
  have dw: "delayedWork p1 = []"
    using assms by (simp add: p1 onBuild_eq)
  have "run ex (Build f1 fc1 so1 # chunkCalls cs1 @
            Build f2 fc2 so2 # chunkCalls cs2 @ BuildComplete succeeded out # chunkCalls cs3 @
            [DelayedWork]) (ctx, p) =
        run ex (Build f2 fc2 so2 # chunkCalls cs2 @ BuildComplete succeeded out # chunkCalls cs3 @
            [DelayedWork]) (ctx1, p1)"
    using run_append [of ex "Build f1 fc1 so1 # chunkCalls cs1" _ "(ctx, p)"] st1 by simp
  then have "envPATH (snd (run ex (Build f1 fc1 so1 # chunkCalls cs1 @
            Build f2 fc2 so2 # chunkCalls cs2 @ BuildComplete succeeded out # chunkCalls cs3 @
            [DelayedWork]) (ctx, p))) =
        (if patchApplies ex (envPATH p1) \<and> envPATH p1 = [] then patchedPath ex [] else envPATH p1)"
    unfolding run_single_build [OF dw] handleBuildComplete_eq by auto
  then have final: "envPATH (snd (run ex (Build f1 fc1 so1 # chunkCalls cs1 @
            Build f2 fc2 so2 # chunkCalls cs2 @ BuildComplete succeeded out # chunkCalls cs3 @
            [DelayedWork]) (ctx, p))) =
        (if patchApplies ex (envPATH (snd (run ex [Build f1 fc1 so1] (ctx, p))))
             \<and> envPATH (snd (run ex [Build f1 fc1 so1] (ctx, p))) = []
          then patchedPath ex []
          else envPATH (snd (run ex [Build f1 fc1 so1] (ctx, p))))"
    unfolding p1 .
  have first: "envPATH (snd (run ex [Build f1 fc1 so1] (ctx, p))) =
           (if patchApplies ex (envPATH p) then patchedPath ex (envPATH p) else envPATH p)"
    by (simp add: onBuild_eq)
  show ?thesis
    using final first by blast
qed

theorem second_start_recaptures_path_witness:
  "delayedWork (initialProcess ''/usr/bin'') = []
   \<and> envPATH (snd (run sampleExternals [Build ''/src/a.cpp'' False False]
        (initialContext, initialProcess ''/usr/bin''))) = ''/rtools/bin:/usr/bin''
   \<and> envPATH (snd (run sampleExternals
        (Build ''/src/a.cpp'' False False # chunkCalls [] @
         Build ''/src/b.cpp'' False False # chunkCalls [] @ BuildComplete True ''done'' # chunkCalls [] @
         [DelayedWork])
        (initialContext, initialProcess ''/usr/bin''))) = ''/rtools/bin:/usr/bin''"
  using second_start_recaptures_path [of "initialProcess ''/usr/bin''" sampleExternals
      "''/src/a.cpp''" False False "[]" "''/src/b.cpp''" False False "[]" True "''done''" "[]"
      initialContext]
  by (simp add: onBuild_eq sampleExternals_def sampleRtools_def patchApplies_def patchedPath_def
      patchWarning_def initialContext_def initialProcess_def)

subsection \<open>The GCC diagnostics dialect\<close>

lemma splitLines_not_Nil: "splitLines s \<noteq> []"
  by (induction s) (simp_all split: list.splits)

lemma splitLines_append_newline:
  "splitLines (a @ newline @ b) = splitLines a @ splitLines b"
proof (induction a)
  case Nil
  show ?case by (simp add: newline_def)
next
  case (Cons c a)
  obtain l ls where ls: "splitLines a = l # ls"
    using splitLines_not_Nil [of a] by (cases "splitLines a") auto
  show ?case
    using Cons.IH ls by simp
qed

lemma splitLines_single: "CHR 0x0A \<notin> set l \<Longrightarrow> splitLines l = [l]"
  by (induction l) auto

lemma gccDialectParser_append:
  "gccDialectParser base (a @ newline @ b) = gccDialectParser base a @ gccDialectParser base b"
  by (simp add: gccDialectParser_def splitLines_append_newline List.map_filter_def)

lemma gccDialectParser_single:
  "CHR 0x0A \<notin> set l \<Longrightarrow>
   gccDialectParser base l = (case parseGccLine base l of None \<Rightarrow> [] | Some e \<Rightarrow> [e])"
  by (simp add: gccDialectParser_def splitLines_single split: option.splits)

text \<open>
  C9: on the text of the example the parser gives exactly the one record of the first line
  and nothing for the second; the records of a text are those of its part before a
  newline followed by those of its part after it, so input order is kept; a line that does
  not match contributes nothing, a line that matches contributes its record in place; the
  parser is a total function returning a list, so no input makes it fail.
\<close>

theorem gcc_parser_example_and_order:
  "gccDialectParser base
     (''/a/b/foo.cpp:12:5: error: expected '' @ [CHR 0x27, CHR '';'', CHR 0x27] @
      ''\<newline>note: irrelevant line\<newline>'') =
     [\<lparr>errorFile = ''/a/b/foo.cpp'', errorLine = 12, errorColumn = 5,
       errorSeverity = ''error'',
       errorMessage = ''expected '' @ [CHR 0x27, CHR '';'', CHR 0x27]\<rparr>]
   \<and> gccDialectParser base (a @ newline @ b) = gccDialectParser base a @ gccDialectParser base b
   \<and> (CHR 0x0A \<notin> set l \<and> parseGccLine base l = None \<longrightarrow>
        gccDialectParser base (a @ newline @ l @ newline @ b) =
          gccDialectParser base (a @ newline @ b))
   \<and> (CHR 0x0A \<notin> set l \<and> parseGccLine base l = Some e \<longrightarrow>
        gccDialectParser base (a @ newline @ l @ newline @ b) =
          gccDialectParser base a @ e # gccDialectParser base b)"
proof -
  have example: "gccDialectParser base
     (''/a/b/foo.cpp:12:5: error: expected '' @ [CHR 0x27, CHR '';'', CHR 0x27] @
      ''\<newline>note: irrelevant line\<newline>'') =
     [\<lparr>errorFile = ''/a/b/foo.cpp'', errorLine = 12, errorColumn = 5,
       errorSeverity = ''error'',
       errorMessage = ''expected '' @ [CHR 0x27, CHR '';'', CHR 0x27]\<rparr>]"
    by (simp add: gccDialectParser_def parseGccLine_def splitColon_def isNumber_def isDigit_def
        toNumber_def resolvePath_def)
  show ?thesis
    using example by (simp add: gccDialectParser_append gccDialectParser_single)
qed

theorem gcc_parser_example_and_order_witness:
  "CHR 0x0A \<notin> set ''In file included from x.cpp''
   \<and> parseGccLine ''/src'' ''In file included from x.cpp'' = None
   \<and> gccDialectParser ''/src''
        (''x.cpp:3:1: error: bad'' @ newline @ ''In file included from x.cpp'' @ newline @
         ''lib/y.h:10:2: warning: unused'') =
       [\<lparr>errorFile = ''/src/x.cpp'', errorLine = 3, errorColumn = 1,
         errorSeverity = ''error'', errorMessage = ''bad''\<rparr>,
        \<lparr>errorFile = ''/src/lib/y.h'', errorLine = 10, errorColumn = 2,
         errorSeverity = ''warning'', errorMessage = ''unused''\<rparr>]
   \<and> CHR 0x0A \<notin> set ''x.cpp:3:1: error: bad''
   \<and> parseGccLine ''/src'' ''x.cpp:3:1: error: bad'' =
       Some \<lparr>errorFile = ''/src/x.cpp'', errorLine = 3, errorColumn = 1,
         errorSeverity = ''error'', errorMessage = ''bad''\<rparr>
   \<and> gccDialectParser ''/src''
        (''make: entering'' @ newline @ ''x.cpp:3:1: error: bad'' @ newline @ ''make: leaving'') =
       [\<lparr>errorFile = ''/src/x.cpp'', errorLine = 3, errorColumn = 1,
         errorSeverity = ''error'', errorMessage = ''bad''\<rparr>]"
  using gcc_parser_example_and_order [where base = "''/src''" and a = "''x.cpp:3:1: error: bad''"
      and b = "''lib/y.h:10:2: warning: unused''" and l = "''In file included from x.cpp''"]
    gcc_parser_example_and_order [where base = "''/src''" and a = "''make: entering''"
      and b = "''make: leaving''" and l = "''x.cpp:3:1: error: bad''"
      and e = "\<lparr>errorFile = ''/src/x.cpp'', errorLine = 3, errorColumn = 1,
         errorSeverity = ''error'', errorMessage = ''bad''\<rparr>"]
  by (simp add: gccDialectParser_def parseGccLine_def splitColon_def isNumber_def isDigit_def
      toNumber_def resolvePath_def newline_def)

end
